theory Spec2Isabelle
  imports Complex_Main
begin

section \<open>Python values and conversions\<close>

text \<open>
  The exceptions the modelled code can raise. \<open>ValueError\<close> is what Python's \<open>float\<close> and
  \<open>int\<close> raise on text that is no number and what the scaler raises on a vector of the
  wrong width; \<open>OverflowError\<close> is \<open>int(inf)\<close>; \<open>IntegrityError\<close> is a constraint of the
  student table rejected at commit; \<open>StorageError\<close> is a failing DELETE.
\<close>

datatype error = ValueError | TypeError | OverflowError | IntegrityError | StorageError

text \<open>
  A Python float: a finite value, one of the two infinities, or NaN. A finite float is
  held as the real number it denotes. A float that Python makes from a decimal text, an
  integer or a literal of the source is the binary64 value nearest to it (function
  \<open>binary64\<close> below). Ordering comparisons between finite floats are exact, so they are
  the comparisons of these reals.
\<close>

datatype pyfloat = Fin real | PInf | NInf | NaN

text \<open>
  The Python values that reach the modelled functions: JSON scalars of a request, the
  text cells and NaN markers of a CSV read with \<open>dtype=str\<close>, and the integer defaults.
\<close>

datatype pyval = PNone | PBool bool | PInt int | PFloat pyfloat | PStr string

subsection \<open>Text\<close>

definition is_space :: "char \<Rightarrow> bool" where
  "is_space c = (let n = (of_char c :: nat) in (9 \<le> n \<and> n \<le> 13) \<or> (28 \<le> n \<and> n \<le> 32))"

definition is_digit :: "char \<Rightarrow> bool" where
  "is_digit c = (let n = (of_char c :: nat) in 48 \<le> n \<and> n \<le> 57)"

definition digit_val :: "char \<Rightarrow> nat" where
  "digit_val c = of_char c - 48"

definition to_lower :: "char \<Rightarrow> char" where
  "to_lower c = (let n = (of_char c :: nat) in if 65 \<le> n \<and> n \<le> 90 then char_of (n + 32) else c)"

text \<open>
  \<open>str.strip()\<close>: leading and trailing whitespace removed. Text is ASCII here: the
  whitespace and the digits beyond ASCII that Python also knows are not modelled.
\<close>

definition strip :: "string \<Rightarrow> string" where
  "strip s = rev (dropWhile is_space (rev (dropWhile is_space s)))"

text \<open>\<open>str(n)\<close> for a natural number: its decimal digits, most significant first.\<close>

fun digits_of :: "nat \<Rightarrow> string" where
  "digits_of n = (if n < 10 then [char_of (48 + n)]
                  else digits_of (n div 10) @ [char_of (48 + n mod 10)])"

declare digits_of.simps [simp del]

definition str_int :: "int \<Rightarrow> string" where
  "str_int i = (if i < 0 then CHR ''-'' # digits_of (nat (- i)) else digits_of (nat i))"

text \<open>
  The format specification \<open>05d\<close> on a non-negative integer: the decimal digits, padded
  on the left with zeros to a width of five; longer numbers are not cut.
\<close>

definition format_05d :: "nat \<Rightarrow> string" where
  "format_05d n = replicate (5 - length (digits_of n)) (CHR ''0'') @ digits_of n"

subsection \<open>\<open>float(str)\<close>\<close>

text \<open>
  Python's grammar for the argument of \<open>float\<close>:
  \<^verbatim>\<open>
  digitpart   ::= digit (["_"] digit)*
  number      ::= [digitpart] "." digitpart | digitpart ["."]
  exponent    ::= ("e" | "E") [sign] digitpart
  floatvalue  ::= [sign] (number [exponent] | "inf" | "infinity" | "nan")
  \<close>
  with surrounding whitespace ignored and the three words read in any letter case.
  The value of a finite literal is the float nearest to the decimal, as in Python.
\<close>

fun more_digits :: "string \<Rightarrow> string \<times> string" where
  "more_digits [] = ([], [])"
| "more_digits [c] = (if is_digit c then ([c], []) else ([], [c]))"
| "more_digits (c # d # cs) =
     (if is_digit c then (case more_digits (d # cs) of (ds, r) \<Rightarrow> (c # ds, r))
      else if c = CHR ''_'' \<and> is_digit d then (case more_digits cs of (ds, r) \<Rightarrow> (d # ds, r))
      else ([], c # d # cs))"

definition digitpart :: "string \<Rightarrow> (string \<times> string) option" where
  "digitpart s = (case s of
      [] \<Rightarrow> None
    | c # cs \<Rightarrow> if is_digit c then (case more_digits cs of (ds, r) \<Rightarrow> Some (c # ds, r)) else None)"

definition nat_of_digits :: "string \<Rightarrow> nat" where
  "nat_of_digits ds = foldl (\<lambda>a c. 10 * a + digit_val c) 0 ds"

definition number :: "string \<Rightarrow> (string \<times> string \<times> string) option" where
  "number s = (case digitpart s of
      Some (ip, r) \<Rightarrow>
        (case r of
           [] \<Rightarrow> Some (ip, [], [])
         | c # r' \<Rightarrow>
             if c = CHR ''.'' then
               (case digitpart r' of
                  Some (fp, r'') \<Rightarrow> Some (ip, fp, r'')
                | None \<Rightarrow> Some (ip, [], r'))
             else Some (ip, [], r))
    | None \<Rightarrow>
        (case s of
           [] \<Rightarrow> None
         | c # r' \<Rightarrow>
             if c = CHR ''.'' then
               (case digitpart r' of
                  Some (fp, r'') \<Rightarrow> Some ([], fp, r'')
                | None \<Rightarrow> None)
             else None))"

definition split_sign :: "string \<Rightarrow> bool \<times> string" where
  "split_sign s = (case s of
      [] \<Rightarrow> (False, [])
    | c # r \<Rightarrow> if c = CHR ''-'' then (True, r) else if c = CHR ''+'' then (False, r) else (False, s))"

definition exponent :: "string \<Rightarrow> int option" where
  "exponent s = (case s of
      [] \<Rightarrow> Some 0
    | c # r \<Rightarrow>
        if c = CHR ''e'' \<or> c = CHR ''E'' then
          (case split_sign r of (neg, r') \<Rightarrow>
             (case digitpart r' of
                Some (ds, []) \<Rightarrow> Some (if neg then - int (nat_of_digits ds) else int (nat_of_digits ds))
              | _ \<Rightarrow> None))
        else None)"

text \<open>
  The decimal literal with integer digits \<open>ip\<close>, fraction digits \<open>fp\<close> and exponent \<open>e\<close>
  as a fraction of two natural numbers.
\<close>

definition decimal_fraction :: "string \<Rightarrow> string \<Rightarrow> int \<Rightarrow> nat \<times> nat" where
  "decimal_fraction ip fp e =
     (let m = nat_of_digits (ip @ fp); k = e - int (length fp)
      in if 0 \<le> k then (m * 10 ^ nat k, 1) else (m, 10 ^ nat (- k)))"

text \<open>
  Rounding to binary64. \<open>bit_length n\<close> is the number of binary digits of \<open>n\<close>;
  \<open>binary_exponent p q\<close> is the exponent \<open>e\<close> with \<open>2^e \<le> p/q < 2^(e+1)\<close>;
  \<open>round_half_even a b\<close> is the integer nearest to \<open>a/b\<close>, the even one of the two when
  \<open>a/b\<close> is halfway. \<open>binary64 p q\<close> is the float nearest to the fraction \<open>p/q\<close>: a
  multiple of \<open>2^(e-52)\<close> (of \<open>2^(-1074)\<close> in the subnormal range), and the infinity
  when the rounded value reaches \<open>2^1024\<close>.
\<close>

fun bit_length :: "nat \<Rightarrow> nat" where
  "bit_length n = (if n = 0 then 0 else Suc (bit_length (n div 2)))"

declare bit_length.simps [simp del]

definition binary_exponent :: "nat \<Rightarrow> nat \<Rightarrow> int" where
  "binary_exponent p q =
     (let d = int (bit_length p) - int (bit_length q)
      in if (if 0 \<le> d then q * 2 ^ nat d \<le> p else q \<le> p * 2 ^ nat (- d)) then d else d - 1)"

definition round_half_even :: "nat \<Rightarrow> nat \<Rightarrow> nat" where
  "round_half_even a b =
     (let f = a div b; r = a mod b
      in if 2 * r < b then f else if b < 2 * r then f + 1 else if even f then f else f + 1)"

definition binary64 :: "nat \<Rightarrow> nat \<Rightarrow> pyfloat" where
  "binary64 p q =
     (if p = 0 then Fin 0
      else (let s = max (binary_exponent p q) (- 1022) - 52;
                m = (if 0 \<le> s then round_half_even p (q * 2 ^ nat s)
                     else round_half_even (p * 2 ^ nat (- s)) q)
            in if 0 \<le> s then (if 2 ^ 1024 \<le> m * 2 ^ nat s then PInf else Fin (real (m * 2 ^ nat s)))
               else Fin (real m / 2 ^ nat (- s))))"

text \<open>The value of a float literal of the source, written as the decimal fraction \<open>p/q\<close>.\<close>

definition float_literal :: "nat \<Rightarrow> nat \<Rightarrow> real" where
  "float_literal p q = (case binary64 p q of Fin r \<Rightarrow> r | _ \<Rightarrow> 0)"

definition negate :: "pyfloat \<Rightarrow> pyfloat" where
  "negate f = (case f of Fin r \<Rightarrow> Fin (- r) | PInf \<Rightarrow> NInf | NInf \<Rightarrow> PInf | NaN \<Rightarrow> NaN)"

text \<open>
  The whitespace that \<open>float\<close> skips around its argument: tab to carriage return, and the
  space (not the separators \<open>0x1C\<close> to \<open>0x1F\<close> that \<open>str.strip\<close> removes).
\<close>

definition is_float_space :: "char \<Rightarrow> bool" where
  "is_float_space c = (let n = (of_char c :: nat) in (9 \<le> n \<and> n \<le> 13) \<or> n = 32)"

definition float_strip :: "string \<Rightarrow> string" where
  "float_strip s = rev (dropWhile is_float_space (rev (dropWhile is_float_space s)))"

definition float_str :: "string \<Rightarrow> error + pyfloat" where
  "float_str s =
     (case split_sign (float_strip s) of (neg, u) \<Rightarrow>
        if map to_lower u = ''inf'' \<or> map to_lower u = ''infinity''
          then Inr (if neg then NInf else PInf)
        else if map to_lower u = ''nan'' then Inr NaN
        else
          (case number u of
             None \<Rightarrow> Inl ValueError
           | Some (ip, fp, r) \<Rightarrow>
               (case exponent r of
                  None \<Rightarrow> Inl ValueError
                | Some e \<Rightarrow>
                    (case decimal_fraction ip fp e of (p, q) \<Rightarrow>
                       Inr (if neg then negate (binary64 p q) else binary64 p q)))))"

text \<open>
  \<open>float(val)\<close> on a Python value. An integer becomes the nearest float, and one too
  large for binary64 raises \<open>OverflowError\<close>; \<open>None\<close> raises \<open>TypeError\<close>.
\<close>

definition py_float :: "pyval \<Rightarrow> error + pyfloat" where
  "py_float v = (case v of
      PStr s \<Rightarrow> float_str s
    | PFloat f \<Rightarrow> Inr f
    | PInt i \<Rightarrow>
        (case binary64 (nat \<bar>i\<bar>) 1 of
           Fin r \<Rightarrow> Inr (Fin (if i < 0 then - r else r))
         | _ \<Rightarrow> Inl OverflowError)
    | PBool b \<Rightarrow> Inr (Fin (if b then 1 else 0))
    | PNone \<Rightarrow> Inl TypeError)"

text \<open>\<open>int(f)\<close> on a float: truncation toward zero; an infinity or NaN raises.\<close>

definition py_int :: "pyfloat \<Rightarrow> error + int" where
  "py_int f = (case f of
      Fin r \<Rightarrow> Inr (if 0 \<le> r then \<lfloor>r\<rfloor> else \<lceil>r\<rceil>)
    | PInf \<Rightarrow> Inl OverflowError
    | NInf \<Rightarrow> Inl OverflowError
    | NaN \<Rightarrow> Inl ValueError)"

text \<open>\<open>pd.isna(val)\<close> on a scalar: true of \<open>None\<close> and of a NaN float, false of any text.\<close>

definition isna :: "pyval \<Rightarrow> bool" where
  "isna v = (case v of PNone \<Rightarrow> True | PFloat NaN \<Rightarrow> True | _ \<Rightarrow> False)"

text \<open>A value is finite when it is no infinity and no NaN.\<close>

definition is_finite :: "pyval \<Rightarrow> bool" where
  "is_finite v = (case v of PInt i \<Rightarrow> True | PFloat (Fin r) \<Rightarrow> True | PBool b \<Rightarrow> True | _ \<Rightarrow> False)"

section \<open>The predictor (\<open>ml_model.py\<close>)\<close>

text \<open>
  \<open>DropoutPredictor\<close> holds the two artefacts loaded at construction. The classifier and
  the scaler are capabilities of the trained artefacts: the scaler takes the feature list
  (after \<open>np.array(features).reshape(1, -1)\<close>) to a scaled row or raises, the classifier
  takes the scaled row to the first row of \<open>predict_proba\<close> or raises. The thresholds
  \<open>0.7\<close> and \<open>0.4\<close> of \<open>predict\<close> are float literals: the probability is compared with
  the floats nearest to 7/10 and 4/10.
\<close>

record ('v, 's) DropoutPredictor =
  model :: "('s \<Rightarrow> error + real list) option"
  scaler :: "('v list \<Rightarrow> error + 's) option"

definition feature_names :: "string list" where
  "feature_names =
    [''Marital status'', ''Application mode'', ''Application order'', ''Course'',
     ''Daytime/evening attendance'', ''Previous qualification'', ''Nacionality'',
     ''Mother's qualification'', ''Father's qualification'', ''Mother's occupation'',
     ''Father's occupation'', ''Displaced'', ''Educational special needs'', ''Debtor'',
     ''Tuition fees up to date'', ''Gender'', ''Scholarship holder'', ''Age at enrollment'',
     ''International'', ''Curricular units 1st sem (credited)'',
     ''Curricular units 1st sem (enrolled)'', ''Curricular units 1st sem (evaluations)'',
     ''Curricular units 1st sem (approved)'', ''Curricular units 1st sem (grade)'',
     ''Curricular units 1st sem (without evaluations)'', ''Curricular units 2nd sem (credited)'',
     ''Curricular units 2nd sem (enrolled)'', ''Curricular units 2nd sem (evaluations)'',
     ''Curricular units 2nd sem (approved)'', ''Curricular units 2nd sem (grade)'',
     ''Curricular units 2nd sem (without evaluations)'', ''Unemployment rate'',
     ''Inflation rate'', ''GDP'']"

definition predict :: "('v, 's) DropoutPredictor \<Rightarrow> 'v list \<Rightarrow> error + (real \<times> string \<times> string list)" where
  "predict self features =
     (case model self of
        None \<Rightarrow> Inl ValueError
      | Some m \<Rightarrow>
     (case scaler self of
        None \<Rightarrow> Inl ValueError
      | Some sc \<Rightarrow>
     (case sc features of
        Inl e \<Rightarrow> Inl e
      | Inr features_scaled \<Rightarrow>
     (case m features_scaled of
        Inl e \<Rightarrow> Inl e
      | Inr probabilities \<Rightarrow>
          (let dropout_prob = (if length probabilities > 1 then probabilities ! 1 else 0);
               risk_category = (if dropout_prob \<ge> float_literal 7 10 then ''High''
                                else if dropout_prob \<ge> float_literal 4 10 then ''Medium''
                                else ''Low'')
           in Inr (dropout_prob, risk_category, []))))))"

text \<open>
  The fitted scaler as \<open>train_model.py\<close> leaves it in \<open>models/scaler.pkl\<close>: the number of
  feature columns it was fitted on (the 34 columns of the training set), and the mean and
  the scale of each.
\<close>

record fitted_scaler =
  n_features_in :: nat
  mean :: "real list"
  scale :: "real list"

text \<open>
  Modelled from the spec: the fitted scaling transform of the artefact
  \<open>models/scaler.pkl\<close>, which is not among the sources. The spec says of it that the
  vector length must match the schema length exactly, with an invalid-input failure
  otherwise (Python's \<open>ValueError\<close>), and that out-of-range values never fail: it rejects
  any width other than the one it was fitted on, and standardises every entry of a vector
  of the right width with the fitted mean and scale (a zero scale counts as one).
\<close>

definition transform :: "fitted_scaler \<Rightarrow> real list \<Rightarrow> error + real list" where
  "transform sc xs =
     (if length xs \<noteq> n_features_in sc then Inl ValueError
      else Inr (map (\<lambda>(x, m, s). (x - m) / (if s = 0 then 1 else s)) (zip xs (zip (mean sc) (scale sc)))))"

section \<open>The data model (\<open>app.py\<close>)\<close>

text \<open>
  The three tables. Times are natural numbers (the clock is an input of every operation);
  \<open>id'\<close> is the integer primary key \<open>id\<close> of each table. The fields shared by several
  tables are written with the table's name in front.
\<close>

record User =
  id' :: nat
  username :: string
  email :: string
  password_hash :: string
  role :: string
  created_at :: nat

text \<open>
  The dictionary built by \<open>_csv_to_student_fields\<close> has a fixed set of keys: it is a
  record, and the \<open>Student\<close> row made from it extends that record with the prediction
  results and the columns the table fills in itself.
\<close>

record student_fields =
  student_id :: string
  name :: string
  marital_status :: int
  application_mode :: int
  application_order :: int
  course :: int
  daytime_evening_attendance :: int
  previous_qualification :: int
  nationality :: int
  mothers_qualification :: int
  fathers_qualification :: int
  mothers_occupation :: int
  fathers_occupation :: int
  displaced :: int
  educational_special_needs :: int
  debtor :: int
  tuition_fees_up_to_date :: int
  gender :: int
  scholarship_holder :: int
  age_at_enrollment :: int
  international :: int
  curricular_units_1st_sem_credited :: pyfloat
  curricular_units_1st_sem_enrolled :: pyfloat
  curricular_units_1st_sem_evaluations :: pyfloat
  curricular_units_1st_sem_approved :: pyfloat
  curricular_units_1st_sem_grade :: pyfloat
  curricular_units_1st_sem_without_evaluations :: pyfloat
  curricular_units_2nd_sem_credited :: pyfloat
  curricular_units_2nd_sem_enrolled :: pyfloat
  curricular_units_2nd_sem_evaluations :: pyfloat
  curricular_units_2nd_sem_approved :: pyfloat
  curricular_units_2nd_sem_grade :: pyfloat
  curricular_units_2nd_sem_without_evaluations :: pyfloat
  unemployment_rate :: pyfloat
  inflation_rate :: pyfloat
  gdp :: pyfloat

record Student = student_fields +
  dropout_risk_score :: real
  risk_category :: string
  last_prediction_date :: "nat option"
  id' :: nat
  user_id :: "nat option"
  created_at :: nat
  updated_at :: nat

record Notification =
  id' :: nat
  student_id :: nat
  counselor_id :: nat
  message :: string
  notification_type :: string
  is_read :: bool
  created_at :: nat

record db =
  students :: "Student list"
  users :: "User list"
  notifications :: "Notification list"

text \<open>The next value of an integer primary key: one more than the largest key in the table.\<close>

definition next_id :: "nat list \<Rightarrow> nat" where
  "next_id ids = Suc (fold max ids 0)"

section \<open>CSV rows (\<open>app.py\<close>, import helpers)\<close>

text \<open>
  The file is read with \<open>pd.read_csv(save_path, dtype=str)\<close>: every cell is a text, or
  the NaN that pandas puts for an empty cell and for its NA markers. A row handed out by
  \<open>df.iterrows()\<close> is a series: its \<open>name\<close> is the row's position in the file, counted
  from 0, and its labels are the column headers (taken as distinct).
\<close>

datatype cell = Text string | Missing

definition cell_val :: "cell \<Rightarrow> pyval" where
  "cell_val c = (case c of Text s \<Rightarrow> PStr s | Missing \<Rightarrow> PFloat NaN)"

record series =
  sname :: nat
  cells :: "string \<rightharpoonup> cell"

text \<open>\<open>row.get(k, d)\<close>, the lambda \<open>g\<close> of \<open>_csv_to_student_fields\<close>.\<close>

definition g :: "series \<Rightarrow> string \<Rightarrow> pyval \<Rightarrow> pyval" where
  "g row k d = (case cells row k of Some c \<Rightarrow> cell_val c | None \<Rightarrow> d)"

text \<open>\<open>str(row.get(k, d))\<close> for a text default \<open>d\<close>: \<open>str\<close> of a NaN is \<open>nan\<close>.\<close>

definition str_get :: "series \<Rightarrow> string \<Rightarrow> string \<Rightarrow> string" where
  "str_get row k d = (case cells row k of Some (Text s) \<Rightarrow> s | Some Missing \<Rightarrow> ''nan'' | None \<Rightarrow> d)"

definition to_int :: "pyval \<Rightarrow> int \<Rightarrow> int" where
  "to_int val dflt =
     (if isna val then dflt
      else (case py_float val of
              Inl e \<Rightarrow> dflt
            | Inr f \<Rightarrow> (case py_int f of Inl e \<Rightarrow> dflt | Inr i \<Rightarrow> i)))"

definition to_float :: "pyval \<Rightarrow> pyfloat \<Rightarrow> pyfloat" where
  "to_float val dflt =
     (if isna val then dflt
      else (case py_float val of Inl e \<Rightarrow> dflt | Inr f \<Rightarrow> f))"

definition csv_to_student_fields :: "series \<Rightarrow> student_fields" where
  "csv_to_student_fields row =
    \<lparr> student_fields.student_id = str_get row ''student_id'' (''CSV'' @ format_05d (sname row + 1)),
      name = str_get row ''name'' (''Student '' @ digits_of (sname row + 1)),
      marital_status = to_int (g row ''Marital status'' (PInt 0)) 0,
      application_mode = to_int (g row ''Application mode'' (PInt 0)) 0,
      application_order = to_int (g row ''Application order'' (PInt 0)) 0,
      course = to_int (g row ''Course'' (PInt 0)) 0,
      daytime_evening_attendance = to_int (g row ''Daytime/evening attendance'' (PInt 0)) 0,
      previous_qualification = to_int (g row ''Previous qualification'' (PInt 0)) 0,
      nationality = to_int (g row ''Nacionality'' (PInt 0)) 0,
      mothers_qualification = to_int (g row ''Mother's qualification'' (PInt 0)) 0,
      fathers_qualification = to_int (g row ''Father's qualification'' (PInt 0)) 0,
      mothers_occupation = to_int (g row ''Mother's occupation'' (PInt 0)) 0,
      fathers_occupation = to_int (g row ''Father's occupation'' (PInt 0)) 0,
      displaced = to_int (g row ''Displaced'' (PInt 0)) 0,
      educational_special_needs = to_int (g row ''Educational special needs'' (PInt 0)) 0,
      debtor = to_int (g row ''Debtor'' (PInt 0)) 0,
      tuition_fees_up_to_date = to_int (g row ''Tuition fees up to date'' (PInt 1)) 0,
      gender = to_int (g row ''Gender'' (PInt 0)) 0,
      scholarship_holder = to_int (g row ''Scholarship holder'' (PInt 0)) 0,
      age_at_enrollment = to_int (g row ''Age at enrollment'' (PInt 18)) 18,
      international = to_int (g row ''International'' (PInt 0)) 0,
      curricular_units_1st_sem_credited = to_float (g row ''Curricular units 1st sem (credited)'' (PInt 0)) (Fin 0),
      curricular_units_1st_sem_enrolled = to_float (g row ''Curricular units 1st sem (enrolled)'' (PInt 0)) (Fin 0),
      curricular_units_1st_sem_evaluations = to_float (g row ''Curricular units 1st sem (evaluations)'' (PInt 0)) (Fin 0),
      curricular_units_1st_sem_approved = to_float (g row ''Curricular units 1st sem (approved)'' (PInt 0)) (Fin 0),
      curricular_units_1st_sem_grade = to_float (g row ''Curricular units 1st sem (grade)'' (PInt 0)) (Fin 0),
      curricular_units_1st_sem_without_evaluations = to_float (g row ''Curricular units 1st sem (without evaluations)'' (PInt 0)) (Fin 0),
      curricular_units_2nd_sem_credited = to_float (g row ''Curricular units 2nd sem (credited)'' (PInt 0)) (Fin 0),
      curricular_units_2nd_sem_enrolled = to_float (g row ''Curricular units 2nd sem (enrolled)'' (PInt 0)) (Fin 0),
      curricular_units_2nd_sem_evaluations = to_float (g row ''Curricular units 2nd sem (evaluations)'' (PInt 0)) (Fin 0),
      curricular_units_2nd_sem_approved = to_float (g row ''Curricular units 2nd sem (approved)'' (PInt 0)) (Fin 0),
      curricular_units_2nd_sem_grade = to_float (g row ''Curricular units 2nd sem (grade)'' (PInt 0)) (Fin 0),
      curricular_units_2nd_sem_without_evaluations = to_float (g row ''Curricular units 2nd sem (without evaluations)'' (PInt 0)) (Fin 0),
      unemployment_rate = to_float (g row ''Unemployment rate'' (PInt 0)) (Fin 0),
      inflation_rate = to_float (g row ''Inflation rate'' (PInt 0)) (Fin 0),
      gdp = to_float (g row ''GDP'' (PInt 0)) (Fin 0) \<rparr>"

text \<open>The dictionary \<open>defaults\<close> of \<open>_row_to_features\<close>, in insertion order.\<close>

definition defaults :: "(string \<times> int) list" where
  "defaults =
    [(''Marital status'', 0), (''Application mode'', 0), (''Application order'', 0),
     (''Course'', 0), (''Daytime/evening attendance'', 0), (''Previous qualification'', 0),
     (''Nacionality'', 0), (''Mother's qualification'', 0), (''Father's qualification'', 0),
     (''Mother's occupation'', 0), (''Father's occupation'', 0), (''Displaced'', 0),
     (''Educational special needs'', 0), (''Debtor'', 0), (''Tuition fees up to date'', 1),
     (''Gender'', 0), (''Scholarship holder'', 0), (''Age at enrollment'', 18),
     (''International'', 0), (''Curricular units 1st sem (credited)'', 0),
     (''Curricular units 1st sem (enrolled)'', 0), (''Curricular units 1st sem (evaluations)'', 0),
     (''Curricular units 1st sem (approved)'', 0), (''Curricular units 1st sem (grade)'', 0),
     (''Curricular units 1st sem (without evaluations)'', 0),
     (''Curricular units 2nd sem (credited)'', 0), (''Curricular units 2nd sem (enrolled)'', 0),
     (''Curricular units 2nd sem (evaluations)'', 0), (''Curricular units 2nd sem (approved)'', 0),
     (''Curricular units 2nd sem (grade)'', 0),
     (''Curricular units 2nd sem (without evaluations)'', 0), (''Unemployment rate'', 0),
     (''Inflation rate'', 0), (''GDP'', 0)]"

text \<open>
  One turn of the loop of \<open>_row_to_features\<close>: the value appended for one feature.
  Only \<open>KeyError\<close> and \<open>ValueError\<close> are caught; another exception leaves the function.
\<close>

definition feature_value :: "series \<Rightarrow> string \<Rightarrow> int \<Rightarrow> error + pyval" where
  "feature_value row feature_name default_val =
     (let val = (case cells row feature_name of Some c \<Rightarrow> cell_val c | None \<Rightarrow> PInt default_val)
      in if isna val \<or> val = PNone then Inr (PInt default_val)
         else (case py_float val of
                 Inr f \<Rightarrow> Inr (PFloat f)
               | Inl ValueError \<Rightarrow> Inr (PInt default_val)
               | Inl e \<Rightarrow> Inl e))"

fun features_loop :: "series \<Rightarrow> (string \<times> int) list \<Rightarrow> pyval list \<Rightarrow> error + pyval list" where
  "features_loop row [] features = Inr features"
| "features_loop row ((feature_name, default_val) # rest) features =
     (case feature_value row feature_name default_val of
        Inl e \<Rightarrow> Inl e
      | Inr val \<Rightarrow> features_loop row rest (features @ [val]))"

definition row_to_features :: "series \<Rightarrow> error + pyval list" where
  "row_to_features row = features_loop row defaults []"

section \<open>Single-record prediction (\<open>/api/predict\<close>)\<close>

text \<open>
  What the store does beyond the tables themselves: whether the raw DELETE statement and
  the ORM delete of the import raise, and how the database renders a floating-point key
  as text when it compares it with the text column \<open>student_id\<close>.
\<close>

record store_env =
  delete_sql_raises :: bool
  delete_orm_raises :: bool
  real_as_text :: "pyfloat \<Rightarrow> string"

text \<open>
  \<open>data.get(k, d)\<close> on the body of the request, taken to be a JSON object whose values
  are scalars.
\<close>

definition dict_get :: "(string \<rightharpoonup> pyval) \<Rightarrow> string \<Rightarrow> pyval \<Rightarrow> pyval" where
  "dict_get data k d = (case data k of Some v \<Rightarrow> v | None \<Rightarrow> d)"

definition request_features :: "(string \<rightharpoonup> pyval) \<Rightarrow> pyval list" where
  "request_features data =
    [dict_get data ''marital_status'' (PInt 0),
     dict_get data ''application_mode'' (PInt 0),
     dict_get data ''application_order'' (PInt 0),
     dict_get data ''course'' (PInt 0),
     dict_get data ''daytime_evening_attendance'' (PInt 0),
     dict_get data ''previous_qualification'' (PInt 0),
     dict_get data ''nationality'' (PInt 0),
     dict_get data ''mothers_qualification'' (PInt 0),
     dict_get data ''fathers_qualification'' (PInt 0),
     dict_get data ''mothers_occupation'' (PInt 0),
     dict_get data ''fathers_occupation'' (PInt 0),
     dict_get data ''displaced'' (PInt 0),
     dict_get data ''educational_special_needs'' (PInt 0),
     dict_get data ''debtor'' (PInt 0),
     dict_get data ''tuition_fees_up_to_date'' (PInt 1),
     dict_get data ''gender'' (PInt 0),
     dict_get data ''scholarship_holder'' (PInt 0),
     dict_get data ''age_at_enrollment'' (PInt 18),
     dict_get data ''international'' (PInt 0),
     dict_get data ''curricular_units_1st_sem_credited'' (PInt 0),
     dict_get data ''curricular_units_1st_sem_enrolled'' (PInt 0),
     dict_get data ''curricular_units_1st_sem_evaluations'' (PInt 0),
     dict_get data ''curricular_units_1st_sem_approved'' (PInt 0),
     dict_get data ''curricular_units_1st_sem_grade'' (PInt 0),
     dict_get data ''curricular_units_1st_sem_without_evaluations'' (PInt 0),
     dict_get data ''curricular_units_2nd_sem_credited'' (PInt 0),
     dict_get data ''curricular_units_2nd_sem_enrolled'' (PInt 0),
     dict_get data ''curricular_units_2nd_sem_evaluations'' (PInt 0),
     dict_get data ''curricular_units_2nd_sem_approved'' (PInt 0),
     dict_get data ''curricular_units_2nd_sem_grade'' (PInt 0),
     dict_get data ''curricular_units_2nd_sem_without_evaluations'' (PInt 0),
     dict_get data ''unemployment_rate'' (PInt 0),
     dict_get data ''inflation_rate'' (PInt 0),
     dict_get data ''gdp'' (PInt 0)]"

text \<open>The truth value of \<open>if student_id:\<close>.\<close>

definition truthy :: "pyval \<Rightarrow> bool" where
  "truthy v = (case v of
      PNone \<Rightarrow> False
    | PBool b \<Rightarrow> b
    | PInt i \<Rightarrow> i \<noteq> 0
    | PFloat f \<Rightarrow> f \<noteq> Fin 0
    | PStr s \<Rightarrow> s \<noteq> [])"

text \<open>
  \<open>Student.query.filter_by(student_id=student_id).first()\<close>. The column is a text column:
  a text key is compared as it is, a numeric key through its text form.
\<close>

definition key_text :: "store_env \<Rightarrow> pyval \<Rightarrow> string option" where
  "key_text env v = (case v of
      PNone \<Rightarrow> None
    | PBool b \<Rightarrow> Some (if b then ''1'' else ''0'')
    | PInt i \<Rightarrow> Some (str_int i)
    | PFloat f \<Rightarrow> Some (real_as_text env f)
    | PStr s \<Rightarrow> Some s)"

definition filter_by_student_id :: "store_env \<Rightarrow> Student list \<Rightarrow> pyval \<Rightarrow> Student option" where
  "filter_by_student_id env table v =
     (case key_text env v of
        None \<Rightarrow> None
      | Some k \<Rightarrow> find (\<lambda>s. student_fields.student_id s = k) table)"

definition alert_message :: "Student \<Rightarrow> string" where
  "alert_message student =
     ''Student '' @ name student @ '' ('' @ student_fields.student_id student @
     '') is at HIGH risk of dropout. Immediate intervention recommended.''"

text \<open>
  The loop over the counselors: one notification added per counselor, keyed as the
  table's next primary key.
\<close>

fun add_notifications :: "nat \<Rightarrow> Student \<Rightarrow> User list \<Rightarrow> Notification list \<Rightarrow> Notification list" where
  "add_notifications now student [] table = table"
| "add_notifications now student (counselor # rest) table =
     add_notifications now student rest
       (table @ [\<lparr> Notification.id' = next_id (map Notification.id' table),
                   student_id = Student.id' student,
                   counselor_id = User.id' counselor,
                   message = alert_message student,
                   notification_type = ''high_risk_alert'',
                   is_read = False,
                   created_at = now \<rparr>])"

datatype predict_response = PredictOk real string "string list" | PredictError error

definition predict_dropout ::
  "store_env \<Rightarrow> (pyval, 's) DropoutPredictor \<Rightarrow> nat \<Rightarrow> (string \<rightharpoonup> pyval) \<Rightarrow> db \<Rightarrow> predict_response \<times> db" where
  "predict_dropout env predictor now data d =
     (case predict predictor (request_features data) of
        Inl e \<Rightarrow> (PredictError e, d)
      | Inr (risk_score, category, recommendations) \<Rightarrow>
          (let sid = dict_get data ''student_id'' PNone
           in if truthy sid then
                (case filter_by_student_id env (students d) sid of
                   None \<Rightarrow> (PredictOk risk_score category recommendations, d)
                 | Some student \<Rightarrow>
                     (let d1 = d\<lparr>students :=
                                 map (\<lambda>s. if Student.id' s = Student.id' student
                                           then s\<lparr>dropout_risk_score := risk_score,
                                                  risk_category := category,
                                                  last_prediction_date := Some now,
                                                  updated_at := now\<rparr>
                                           else s) (students d)\<rparr>;
                          d2 = (if category = ''High''
                                then d1\<lparr>notifications :=
                                        add_notifications now student
                                          (filter (\<lambda>u. role u = ''counselor'') (users d1))
                                          (notifications d1)\<rparr>
                                else d1)
                      in (PredictOk risk_score category recommendations, d2)))
              else (PredictOk risk_score category recommendations, d)))"

section \<open>Batch import (\<open>/api/import\<close>)\<close>

text \<open>
  The uploaded file: its name, and what \<open>pd.read_csv\<close> makes of it, a frame of text
  cells under a list of headers, or the exception it raises.
\<close>

record data_frame =
  columns :: "string list"
  values_of :: "cell list list"

record upload =
  filename :: string
  content :: "error + data_frame"

record import_request =
  current_role :: string
  file_part :: "upload option"

text \<open>
  \<open>df.iterrows()\<close>: one series per row, named by its position, its cells under the
  headers. The headers are taken as pairwise distinct: a header that occurs twice after
  stripping, for which pandas hands out a sub-series instead of a cell, is not modelled.
\<close>

definition iterrows :: "data_frame \<Rightarrow> series list" where
  "iterrows df =
     map (\<lambda>(i, vals). \<lparr> sname = i, cells = map_of (zip (columns df) vals) \<rparr>)
         (enumerate 0 (values_of df))"

text \<open>
  One turn of the loop of \<open>import_csv\<close>, on the counter \<open>created\<close>, the students added to
  the session and the previews. The student's key is the one the flush gives it: the
  table is empty by then, so the keys count up in the order of the additions.
\<close>

definition import_row ::
  "(pyval, 's) DropoutPredictor \<Rightarrow> nat \<Rightarrow> series \<Rightarrow> nat \<times> Student list \<times> (string \<times> string \<times> real \<times> string) list
     \<Rightarrow> error + (nat \<times> Student list \<times> (string \<times> string \<times> real \<times> string) list)" where
  "import_row predictor now row st =
     (case st of (created, pending, results) \<Rightarrow>
     (case row_to_features row of
        Inl e \<Rightarrow> Inl e
      | Inr features \<Rightarrow>
     (case predict predictor features of
        Inl e \<Rightarrow> Inl e
      | Inr (risk_score, category, recommendations) \<Rightarrow>
          (let fields = csv_to_student_fields row;
               student = student_fields.extend fields
                           (Student.fields risk_score category (Some now)
                              (next_id (map Student.id' pending)) None now now)
           in Inr (created + 1, pending @ [student],
                   results @ [(student_fields.student_id fields, name fields, risk_score, category)])))))"

fun import_loop ::
  "(pyval, 's) DropoutPredictor \<Rightarrow> nat \<Rightarrow> series list \<Rightarrow> nat \<times> Student list \<times> (string \<times> string \<times> real \<times> string) list
     \<Rightarrow> error + (nat \<times> Student list \<times> (string \<times> string \<times> real \<times> string) list)" where
  "import_loop predictor now [] st = Inr st"
| "import_loop predictor now (row # rest) st =
     (case import_row predictor now row st of
        Inl e \<Rightarrow> Inl e
      | Inr st' \<Rightarrow> import_loop predictor now rest st')"

text \<open>
  The commit of the added students into the emptied table. The column \<open>student_id\<close> is
  unique, and an integer column holds a signed 64-bit value.
\<close>

definition int_columns :: "Student \<Rightarrow> int list" where
  "int_columns s =
    [marital_status s, age_at_enrollment s, gender s, nationality s, application_mode s,
     application_order s, course s, daytime_evening_attendance s, previous_qualification s,
     mothers_qualification s, fathers_qualification s, mothers_occupation s,
     fathers_occupation s, displaced s, educational_special_needs s, debtor s,
     tuition_fees_up_to_date s, scholarship_holder s, international s]"

definition fits_int64 :: "int \<Rightarrow> bool" where
  "fits_int64 i = (- (2 ^ 63) \<le> i \<and> i < 2 ^ 63)"

definition commit_students :: "Student list \<Rightarrow> error + Student list" where
  "commit_students pending =
     (if \<not> list_all (\<lambda>s. list_all fits_int64 (int_columns s)) pending then Inl OverflowError
      else if \<not> distinct (map student_fields.student_id pending) then Inl IntegrityError
      else Inr pending)"

record import_summary =
  created :: nat
  updated :: nat
  total :: nat
  replaced_existing :: bool
  cleared_count :: nat
  file_name :: string
  import_date :: nat
  total_in_db :: nat

datatype import_response =
    ImportOk import_summary "(string \<times> string \<times> real \<times> string) list" "string list"
  | ImportRefused nat string
  | ImportFailed error

definition ends_with :: "string \<Rightarrow> string \<Rightarrow> bool" where
  "ends_with s suf = (length suf \<le> length s \<and> drop (length s - length suf) s = suf)"

definition import_csv ::
  "store_env \<Rightarrow> (pyval, 's) DropoutPredictor \<Rightarrow> nat \<Rightarrow> import_request \<Rightarrow> db \<Rightarrow> import_response \<times> db" where
  "import_csv env predictor now req d =
     (if current_role req \<noteq> ''counselor'' \<and> current_role req \<noteq> ''admin''
        then (ImportRefused 403 ''Unauthorized'', d)
      else (case file_part req of
        None \<Rightarrow> (ImportRefused 400 ''No file uploaded'', d)
      | Some f \<Rightarrow>
      if \<not> ends_with (map to_lower (filename f)) ''.csv''
        then (ImportRefused 400 ''Please upload a .csv file'', d)
      else (case content f of
        Inl e \<Rightarrow> (ImportFailed e, d)
      | Inr df0 \<Rightarrow>
          (let df = df0\<lparr>columns := map strip (columns df0)\<rparr>;
               missing_columns = filter (\<lambda>col. col \<notin> set (columns df)) feature_names;
               existing_count = length (students d)
           in if delete_sql_raises env \<and> delete_orm_raises env then (ImportFailed StorageError, d)
              else
                (let d1 = d\<lparr>students := []\<rparr>
                 in (case import_loop predictor now (iterrows df) (0, [], []) of
                       Inl e \<Rightarrow> (ImportFailed e, d1)
                     | Inr (n_created, pending, results) \<Rightarrow>
                         (case commit_students pending of
                            Inl e \<Rightarrow> (ImportFailed e, d1)
                          | Inr table \<Rightarrow>
                              (let d2 = d1\<lparr>students := table\<rparr>;
                                   total_students_after = length (students d2)
                               in (ImportOk \<lparr> created = n_created, updated = 0, total = n_created,
                                              replaced_existing = True,
                                              cleared_count = existing_count,
                                              file_name = filename f, import_date = now,
                                              total_in_db = total_students_after \<rparr>
                                     (take 50 results) missing_columns,
                                   d2)))))))))"

section \<open>Auxiliary definitions\<close>

text \<open>
  The keys that \<open>predict_dropout\<close> reads from the request, each with the default of its
  \<open>data.get\<close>, in the order of the feature list.
\<close>

definition request_keys :: "(string \<times> int) list" where
  "request_keys =
    [(''marital_status'', 0), (''application_mode'', 0), (''application_order'', 0),
     (''course'', 0), (''daytime_evening_attendance'', 0), (''previous_qualification'', 0),
     (''nationality'', 0), (''mothers_qualification'', 0), (''fathers_qualification'', 0),
     (''mothers_occupation'', 0), (''fathers_occupation'', 0), (''displaced'', 0),
     (''educational_special_needs'', 0), (''debtor'', 0), (''tuition_fees_up_to_date'', 1),
     (''gender'', 0), (''scholarship_holder'', 0), (''age_at_enrollment'', 18),
     (''international'', 0), (''curricular_units_1st_sem_credited'', 0),
     (''curricular_units_1st_sem_enrolled'', 0), (''curricular_units_1st_sem_evaluations'', 0),
     (''curricular_units_1st_sem_approved'', 0), (''curricular_units_1st_sem_grade'', 0),
     (''curricular_units_1st_sem_without_evaluations'', 0),
     (''curricular_units_2nd_sem_credited'', 0), (''curricular_units_2nd_sem_enrolled'', 0),
     (''curricular_units_2nd_sem_evaluations'', 0), (''curricular_units_2nd_sem_approved'', 0),
     (''curricular_units_2nd_sem_grade'', 0),
     (''curricular_units_2nd_sem_without_evaluations'', 0), (''unemployment_rate'', 0),
     (''inflation_rate'', 0), (''gdp'', 0)]"

text \<open>
  The value that one turn of the loop of \<open>_row_to_features\<close> appends, read off the three
  shapes of a cell: no such column (the integer default goes through \<open>float\<close>), an empty
  cell (the default as it is), a text (its float, or the default when it is no number).
\<close>

definition feature_of :: "series \<Rightarrow> string \<Rightarrow> int \<Rightarrow> pyval" where
  "feature_of row k d =
     (case cells row k of
        None \<Rightarrow> PFloat (Fin (real_of_int d))
      | Some Missing \<Rightarrow> PInt d
      | Some (Text s) \<Rightarrow> (case float_str s of Inr f \<Rightarrow> PFloat f | Inl e \<Rightarrow> PInt d))"

text \<open>
  Concrete artefacts and tables for the worked examples: a predictor whose scaler passes
  the features on and whose classifier answers with a fixed distribution, a store whose
  deletes succeed, and a fitted scaler of the schema's width.
\<close>

definition demo_predictor :: "real list \<Rightarrow> ('v, 'v list) DropoutPredictor" where
  "demo_predictor ps = \<lparr> model = Some (\<lambda>row. Inr ps), scaler = Some (\<lambda>features. Inr features) \<rparr>"

definition high_predictor :: "(pyval, pyval list) DropoutPredictor" where
  "high_predictor = demo_predictor [0.1, 0.8, 0.1]"

definition demo_scaler :: "fitted_scaler" where
  "demo_scaler = \<lparr> n_features_in = 34, mean = replicate 34 0, scale = replicate 34 1 \<rparr>"

definition demo_scaled_predictor :: "(real, real list) DropoutPredictor" where
  "demo_scaled_predictor = \<lparr> model = Some (\<lambda>row. Inr [0.5, 0.2, 0.3]), scaler = Some (transform demo_scaler) \<rparr>"

definition demo_env :: store_env where
  "demo_env = \<lparr> delete_sql_raises = False, delete_orm_raises = False, real_as_text = (\<lambda>f. []) \<rparr>"

definition demo_users :: "User list" where
  "demo_users =
    [\<lparr> User.id' = 1, username = ''admin'', email = ''admin@university.edu'', password_hash = [],
        role = ''admin'', created_at = 0 \<rparr>,
     \<lparr> User.id' = 2, username = ''counselor'', email = ''counselor@university.edu'', password_hash = [],
        role = ''counselor'', created_at = 0 \<rparr>,
     \<lparr> User.id' = 3, username = ''counselor2'', email = ''counselor2@university.edu'', password_hash = [],
        role = ''counselor'', created_at = 0 \<rparr>,
     \<lparr> User.id' = 4, username = ''counselor3'', email = ''counselor3@university.edu'', password_hash = [],
        role = ''counselor'', created_at = 0 \<rparr>]"

definition demo_student :: Student where
  "demo_student =
     student_fields.extend
       (csv_to_student_fields
          \<lparr> sname = 0, cells = [''student_id'' \<mapsto> Text ''S001'', ''name'' \<mapsto> Text ''Alice''] \<rparr>)
       (Student.fields 0.1 ''Low'' None 7 None 0 0)"

definition demo_db :: db where
  "demo_db = \<lparr> students = [demo_student], users = demo_users, notifications = [] \<rparr>"

text \<open>A file of two rows under the single header \<open>Debtor\<close>, uploaded by a counselor.\<close>

definition demo_frame :: data_frame where
  "demo_frame = \<lparr> columns = ['' Debtor ''], values_of = [[Text ''1''], [Text ''0'']] \<rparr>"

definition demo_request :: import_request where
  "demo_request = \<lparr> current_role = ''counselor'',
                     file_part = Some \<lparr> filename = ''students.csv'', content = Inr demo_frame \<rparr> \<rparr>"


section \<open>Properties of the predictor\<close>

lemmas float_str_defs = float_str_def split_sign_def float_strip_def is_float_space_def to_lower_def
  number_def digitpart_def is_digit_def exponent_def decimal_fraction_def nat_of_digits_def
  digit_val_def negate_def

lemmas binary64_defs = binary64_def binary_exponent_def round_half_even_def Let_def

lemma bit_length_values:
  "bit_length 0 = 0" "bit_length (Suc 0) = 1" "bit_length 4 = 3" "bit_length 7 = 3"
  "bit_length 10 = 4" "bit_length 18 = 5" "bit_length 3999 = 12" "bit_length 10000 = 14"
  by (simp_all add: bit_length.simps)

text \<open>The floats of the three literals that the thresholds are about.\<close>

lemma binary64_literals:
  "binary64 7 10 = Fin (3152519739159347 / 2 ^ 52)"
  "binary64 4 10 = Fin (3602879701896397 / 2 ^ 53)"
  "binary64 3999 10000 = Fin (7203957963941845 / 2 ^ 54)"
  by (simp_all add: binary64_defs bit_length_values)

lemma float_literal_values:
  "float_literal 7 10 = 3152519739159347 / 2 ^ 52"
  "float_literal 4 10 = 3602879701896397 / 2 ^ 53"
  "float_literal 3999 10000 = 7203957963941845 / 2 ^ 54"
  by (simp_all add: float_literal_def binary64_literals)

text \<open>The floats of the small integers that serve as defaults.\<close>

lemma binary64_small:
  "binary64 0 q = Fin 0" "binary64 (Suc 0) (Suc 0) = Fin 1" "binary64 18 (Suc 0) = Fin 18"
  by (simp_all add: binary64_defs bit_length_values)

lemma py_float_small:
  "py_float (PInt 0) = Inr (Fin 0)" "py_float (PInt 1) = Inr (Fin 1)" "py_float (PInt 18) = Inr (Fin 18)"
  by (simp_all add: py_float_def binary64_small)

lemma py_float_text: "py_float (PStr s) = float_str s"
  by (simp add: py_float_def)

text \<open>
  C1. Whatever probability \<open>predict\<close> returns, the category it returns with it follows the
  fixed thresholds with inclusive lower bounds, the thresholds being the floats of the
  literals 0.7 and 0.4: at least 0.70 is High, at least 0.40 and below 0.70 is Medium,
  anything lower is Low. In particular the float 0.70 is High, the float 0.4 is Medium
  and the float 0.3999 is Low. The three floats are given by their exact values.
\<close>

theorem predict_category_thresholds:
  assumes "predict self features = Inr (p, c, recs)"
  shows "(float_literal 7 10 \<le> p \<longrightarrow> c = ''High'')
         \<and> (float_literal 4 10 \<le> p \<and> p < float_literal 7 10 \<longrightarrow> c = ''Medium'')
         \<and> (p < float_literal 4 10 \<longrightarrow> c = ''Low'')
         \<and> (p = float_literal 7 10 \<longrightarrow> c = ''High'')
         \<and> (p = float_literal 4 10 \<longrightarrow> c = ''Medium'')
         \<and> (p = float_literal 3999 10000 \<longrightarrow> c = ''Low'')
         \<and> float_literal 7 10 = 3152519739159347 / 2 ^ 52
         \<and> float_literal 4 10 = 3602879701896397 / 2 ^ 53
         \<and> float_literal 3999 10000 = 7203957963941845 / 2 ^ 54"
  using assms
  by (auto simp: predict_def Let_def float_literal_values split: option.splits sum.splits if_splits)

theorem predict_category_thresholds_witness:
  "predict (demo_predictor [0.2, float_literal 7 10, 0.1]) [PInt 1] = Inr (float_literal 7 10, ''High'', [])
   \<and> predict (demo_predictor [0.5, float_literal 4 10, 0.1]) [PInt 1] = Inr (float_literal 4 10, ''Medium'', [])
   \<and> predict (demo_predictor [0.5, float_literal 3999 10000, 0.1]) [PInt 1]
       = Inr (float_literal 3999 10000, ''Low'', [])"
proof -
  have h1: "predict (demo_predictor [0.2, float_literal 7 10, 0.1]) [PInt 1]
              = Inr (float_literal 7 10, ''High'', [])"
    by (simp add: predict_def demo_predictor_def)
  have h2: "predict (demo_predictor [0.5, float_literal 4 10, 0.1]) [PInt 1]
              = Inr (float_literal 4 10, ''Medium'', [])"
    by (simp add: predict_def demo_predictor_def float_literal_values)
  have h3: "predict (demo_predictor [0.5, float_literal 3999 10000, 0.1]) [PInt 1]
              = Inr (float_literal 3999 10000, ''Low'', [])"
    by (simp add: predict_def demo_predictor_def float_literal_values)
  from predict_category_thresholds [OF h1] have "float_literal 7 10 = 3152519739159347 / 2 ^ 52"
    by blast
  with h1 h2 h3 show ?thesis by blast
qed

text \<open>
  C8. With the fitted scaler of the schema's width loaded, \<open>predict\<close> fails with the
  invalid-input error (Python's \<open>ValueError\<close>) on every vector whose length differs from
  the schema length, and on a vector of the schema length it returns a result, whatever
  the values in it, as long as the classifier answers.
\<close>

theorem predict_rejects_wrong_length:
  assumes "scaler self = Some (transform sc)"
    and "model self = Some m"
    and "n_features_in sc = length feature_names"
  shows "(length v \<noteq> length feature_names \<longrightarrow> predict self v = Inl ValueError)
       \<and> (length v = length feature_names \<and> (\<forall>w. \<exists>ps. m w = Inr ps) \<longrightarrow> (\<exists>r. predict self v = Inr r))"
proof (intro conjI impI)
  assume "length v \<noteq> length feature_names"
  with assms show "predict self v = Inl ValueError"
    by (simp add: predict_def transform_def)
next
  assume h: "length v = length feature_names \<and> (\<forall>w. \<exists>ps. m w = Inr ps)"
  then obtain w where w: "transform sc v = Inr w"
    using assms by (simp add: transform_def)
  from h obtain ps where "m w = Inr ps" by blast
  with w assms show "\<exists>r. predict self v = Inr r"
    by (simp add: predict_def Let_def)
qed

theorem predict_rejects_wrong_length_witness:
  "predict demo_scaled_predictor [1, 2, 3] = Inl ValueError
   \<and> (\<exists>r. predict demo_scaled_predictor (replicate 34 1000000) = Inr r)"
proof -
  have a: "scaler demo_scaled_predictor = Some (transform demo_scaler)"
    by (simp add: demo_scaled_predictor_def)
  have b: "model demo_scaled_predictor = Some (\<lambda>row. Inr [0.5, 0.2, 0.3])"
    by (simp add: demo_scaled_predictor_def)
  have c: "n_features_in demo_scaler = length feature_names"
    by (simp add: demo_scaler_def feature_names_def)
  have d: "\<forall>w :: real list. \<exists>ps. (\<lambda>row. Inr [0.5, 0.2, 0.3 :: real]) w = (Inr ps :: error + real list)"
    by simp
  have e: "length (replicate 34 (1000000 :: real)) = length feature_names"
    by (simp add: feature_names_def)
  have f: "length [1, 2, 3 :: real] \<noteq> length feature_names"
    by (simp add: feature_names_def)
  from predict_rejects_wrong_length [OF a b c, of "[1, 2, 3]"] f
  have g: "predict demo_scaled_predictor [1, 2, 3] = Inl ValueError" by blast
  from predict_rejects_wrong_length [OF a b c, of "replicate 34 1000000"] d e
  have "\<exists>r. predict demo_scaled_predictor (replicate 34 1000000) = Inr r" by blast
  with g show ?thesis by blast
qed

section \<open>Properties of the feature schema and the row mapping\<close>

text \<open>
  C4, as the spec states it: the schema has 33 fields and a prediction request reads 33
  keys. The code's schema and the request's feature list have another length.
\<close>

theorem feature_schema_33_counterexample:
  "length feature_names \<noteq> 33 \<and> length (request_features Map.empty) \<noteq> 33"
  by (simp add: feature_names_def request_features_def)

text \<open>
  C4, amended. The feature schema consists of exactly 34 distinct named fields, and the
  single-record prediction request reads exactly 34 distinct snake-case keys, one per
  schema field, each with its own default when the key is absent; the feature vector
  built from a request has exactly the schema's length.
\<close>

theorem feature_schema_34_fields:
  "length feature_names = 34 \<and> distinct feature_names
   \<and> length request_keys = 34 \<and> distinct (map fst request_keys)
   \<and> request_features data = map (\<lambda>(k, d). dict_get data k (PInt d)) request_keys
   \<and> length (request_features data) = length feature_names"
  by (simp add: feature_names_def request_features_def request_keys_def)

lemma float_str_error: "float_str s = Inl e \<Longrightarrow> e = ValueError"
  by (auto simp: float_str_def Let_def split: prod.splits option.splits if_splits)

lemma feature_value_total:
  assumes "py_float (PInt d) = Inr (Fin (real_of_int d))"
  shows "feature_value row k d = Inr (feature_of row k d)"
proof (cases "cells row k")
  case None
  with assms show ?thesis
    by (simp add: feature_value_def feature_of_def isna_def)
next
  case (Some c)
  show ?thesis
  proof (cases c)
    case Missing
    with Some show ?thesis
      by (simp add: feature_value_def feature_of_def isna_def cell_val_def)
  next
    case (Text s)
    show ?thesis
    proof (cases "float_str s")
      case (Inl e)
      then have "e = ValueError" by (rule float_str_error)
      with Inl Some Text show ?thesis
        by (simp add: feature_value_def feature_of_def isna_def cell_val_def py_float_def)
    next
      case (Inr f)
      with Some Text show ?thesis
        by (simp add: feature_value_def feature_of_def isna_def cell_val_def py_float_def)
    qed
  qed
qed

lemma features_loop_total:
  assumes "\<forall>(k, d) \<in> set ds. py_float (PInt d) = Inr (Fin (real_of_int d))"
  shows "features_loop row ds acc = Inr (acc @ map (\<lambda>(k, d). feature_of row k d) ds)"
  using assms
proof (induction ds arbitrary: acc)
  case Nil
  then show ?case by simp
next
  case (Cons kd ds)
  obtain k d where kd: "kd = (k, d)" by (cases kd)
  with Cons.prems have "py_float (PInt d) = Inr (Fin (real_of_int d))" by simp
  then have "feature_value row k d = Inr (feature_of row k d)" by (rule feature_value_total)
  with Cons kd show ?case by simp
qed

lemma defaults_small: "\<forall>(k, d) \<in> set defaults. py_float (PInt d) = Inr (Fin (real_of_int d))"
  by (simp add: defaults_def py_float_small)

text \<open>
  The row mapping is total on the rows of a text-typed frame, and its result has one
  entry per schema field, in the schema's order.
\<close>

lemma row_to_features_eq:
  "row_to_features row = Inr (map (\<lambda>(k, d). feature_of row k d) defaults)"
  using features_loop_total [OF defaults_small, of row "[]"] by (simp add: row_to_features_def)

lemma defaults_follow_schema: "map fst defaults = feature_names"
  by (simp add: defaults_def feature_names_def)

text \<open>
  C2. The claim holds for the length and for totality, and fails for the finiteness of
  the entries: a cell whose text is \<open>inf\<close> is a float for Python, and no NaN for pandas,
  so the mapping passes the infinity on instead of the default. Here the row has the one
  cell \<open>Course = inf\<close>: the vector has 34 entries, its entry for \<open>Course\<close> (index 3) is
  the infinity, and not all its entries are finite. Likewise a NaN spelled in a way that
  pandas does not take for a missing value, as \<open>+nan\<close>, passes the check for NaN as a
  text and comes out of \<open>float\<close> as a NaN: here in the last entry, for \<open>GDP\<close>.
\<close>

theorem row_to_features_keeps_infinity:
  "map_sum id (\<lambda>fs. (length fs, fs ! 3, list_all is_finite fs))
     (row_to_features \<lparr> sname = 0, cells = [''Course'' \<mapsto> Text ''inf''] \<rparr>)
   = Inr (34, PFloat PInf, False)
   \<and> map_sum id (\<lambda>fs. (length fs, fs ! 33, list_all is_finite fs))
     (row_to_features \<lparr> sname = 0, cells = [''GDP'' \<mapsto> Text ''+nan''] \<rparr>)
   = Inr (34, PFloat NaN, False)"
  by (simp add: row_to_features_eq defaults_def feature_of_def is_finite_def float_str_defs)

text \<open>
  C9. In the persisted fields, a \<open>Tuition fees up to date\<close> cell that is present but no
  number is stored as 0, and an absent column is stored as 1; the feature vector of the
  same row has 1 at that field (index 14) in both cases, as the integer default for the
  malformed cell and as the float of the default for the absent column.
\<close>

theorem tuition_malformed_is_not_absent:
  "(cells row ''Tuition fees up to date'' = Some (Text s) \<and> float_str s = Inl ValueError \<longrightarrow>
      tuition_fees_up_to_date (csv_to_student_fields row) = 0
      \<and> (\<exists>fs. row_to_features row = Inr fs \<and> fs ! 14 = PInt 1))
   \<and> (cells row ''Tuition fees up to date'' = None \<longrightarrow>
      tuition_fees_up_to_date (csv_to_student_fields row) = 1
      \<and> (\<exists>fs. row_to_features row = Inr fs \<and> fs ! 14 = PFloat (Fin 1)))"
  by (simp add: csv_to_student_fields_def to_int_def g_def cell_val_def isna_def py_float_text
      py_float_small py_int_def row_to_features_eq defaults_def feature_of_def)

theorem tuition_malformed_is_not_absent_witness:
  "tuition_fees_up_to_date (csv_to_student_fields
      \<lparr> sname = 0, cells = [''Tuition fees up to date'' \<mapsto> Text ''yes''] \<rparr>) = 0
   \<and> tuition_fees_up_to_date (csv_to_student_fields \<lparr> sname = 0, cells = Map.empty \<rparr>) = 1"
proof -
  have a: "float_str ''yes'' = Inl ValueError" by (simp add: float_str_defs)
  show ?thesis
    using tuition_malformed_is_not_absent
            [of "\<lparr> sname = 0, cells = [''Tuition fees up to date'' \<mapsto> Text ''yes''] \<rparr>" "''yes''"]
          tuition_malformed_is_not_absent [of "\<lparr> sname = 0, cells = Map.empty \<rparr>" "''yes''"] a
    by simp
qed

section \<open>Decimal placeholders\<close>

lemma nat_of_digits_snoc: "nat_of_digits (ds @ [c]) = 10 * nat_of_digits ds + digit_val c"
  by (simp add: nat_of_digits_def)

lemma digit_val_char_of: "k < 10 \<Longrightarrow> digit_val (char_of (48 + k)) = k"
  by (simp add: digit_val_def)

text \<open>Reading the decimal digits of a number back gives the number.\<close>

lemma nat_of_digits_of: "nat_of_digits (digits_of n) = n"
proof (induction n rule: digits_of.induct)
  case (1 n)
  show ?case
  proof (cases "n < 10")
    case True
    then show ?thesis
      using digit_val_char_of [of n] by (simp add: digits_of.simps [of n] nat_of_digits_def)
  next
    case False
    with 1 have "nat_of_digits (digits_of (n div 10)) = n div 10" by simp
    with False show ?thesis
      using digit_val_char_of [of "n mod 10"]
      by (simp add: digits_of.simps [of n] nat_of_digits_snoc)
  qed
qed

lemma nat_of_digits_zeros: "nat_of_digits (replicate k (CHR ''0'') @ ds) = nat_of_digits ds"
  by (induction k) (simp_all add: nat_of_digits_def digit_val_def)

lemma nat_of_format_05d: "nat_of_digits (format_05d n) = n"
  by (simp only: format_05d_def nat_of_digits_zeros nat_of_digits_of)

lemma format_05d_inj: "format_05d m = format_05d n \<Longrightarrow> m = n"
  by (metis nat_of_format_05d)

lemma format_05d_examples:
  "format_05d 1 = ''00001''" "format_05d 2 = ''00002''"
  "format_05d (Suc 0) = ''00001''" "format_05d (Suc (Suc 0)) = ''00002''"
  "digits_of 1 = ''1''" "digits_of 2 = ''2''" "digits_of (Suc 0) = ''1''" "digits_of (Suc (Suc 0)) = ''2''"
  by code_simp+

lemma placeholders_distinct: "distinct (map (\<lambda>i. ''CSV'' @ format_05d (i + 1)) [0..<n])"
  by (auto simp: distinct_map inj_on_def dest: format_05d_inj)

section \<open>Properties of the batch import\<close>

lemma student_id_extend:
  "student_fields.student_id (student_fields.extend r e) = student_fields.student_id r"
  by (simp add: student_fields.defs)

lemma student_id_truncate:
  "student_fields.student_id (student_fields.truncate s) = student_fields.student_id s"
  by (simp add: student_fields.defs)


text \<open>One turn of the import loop adds one student, built from the row and its score.\<close>

lemma import_row_result:
  assumes "import_row predictor now row (c, pend, res) = Inr st'"
  shows "\<exists>s sc cat. st' = (c + 1, pend @ [s],
                res @ [(student_fields.student_id (csv_to_student_fields row),
                        name (csv_to_student_fields row), sc, cat)])
       \<and> student_fields.truncate s = csv_to_student_fields row
       \<and> Student.id' s = next_id (map Student.id' pend)
       \<and> Student.created_at s = now \<and> last_prediction_date s = Some now
       \<and> dropout_risk_score s = sc \<and> risk_category s = cat
       \<and> (\<exists>fs recs. row_to_features row = Inr fs \<and> predict predictor fs = Inr (sc, cat, recs))"
  using assms
  by (auto simp: import_row_def Let_def student_fields.defs Student.defs split: sum.splits prod.splits)

lemma import_loop_shape:
  assumes "import_loop predictor now rows (c, pend, res) = Inr (c', pend', res')"
  shows "c' = c + length rows \<and> length pend' = length pend + length rows
       \<and> map student_fields.truncate pend' = map student_fields.truncate pend @ map csv_to_student_fields rows
       \<and> length res' = length res + length rows
       \<and> (\<exists>new. pend' = pend @ new
              \<and> (\<forall>s \<in> set new. Student.created_at s = now \<and> last_prediction_date s = Some now))"
  using assms
proof (induction rows arbitrary: c pend res)
  case Nil
  then show ?case by simp
next
  case (Cons row rows)
  from Cons.prems obtain st' where st': "import_row predictor now row (c, pend, res) = Inr st'"
    and loop: "import_loop predictor now rows st' = Inr (c', pend', res')"
    by (auto split: sum.splits)
  from import_row_result [OF st'] obtain s sc cat where
    eq: "st' = (c + 1, pend @ [s],
           res @ [(student_fields.student_id (csv_to_student_fields row),
                   name (csv_to_student_fields row), sc, cat)])"
    and tr: "student_fields.truncate s = csv_to_student_fields row"
    and cr: "Student.created_at s = now" "last_prediction_date s = Some now"
    by blast
  from Cons.IH [OF loop [unfolded eq]] tr cr show ?case by auto
qed

text \<open>What a successful import has gone through.\<close>

lemma import_csv_success:
  assumes "import_csv env predictor now req d = (ImportOk summary preview missing, d')"
  shows "\<exists>f df c pend res.
           file_part req = Some f \<and> content f = Inr df
         \<and> (current_role req = ''counselor'' \<or> current_role req = ''admin'')
         \<and> ends_with (map to_lower (filename f)) ''.csv''
         \<and> \<not> (delete_sql_raises env \<and> delete_orm_raises env)
         \<and> import_loop predictor now (iterrows (df\<lparr>columns := map strip (columns df)\<rparr>)) (0, [], [])
               = Inr (c, pend, res)
         \<and> commit_students pend = Inr pend
         \<and> d' = d\<lparr>students := pend\<rparr>
         \<and> created summary = c \<and> total_in_db summary = length pend
         \<and> cleared_count summary = length (students d)
         \<and> preview = take 50 res"
  using assms
  by (auto simp: import_csv_def Let_def commit_students_def
           split: option.splits sum.splits prod.splits if_splits)

text \<open>
  Whatever the outcome of an import, the student table is afterwards the old one (the
  import was turned away before the delete), empty (it failed after the delete), or the
  new one: no state mixes old and new rows.
\<close>

lemma import_csv_outcomes:
  assumes "import_csv env predictor now req d = (resp, d')"
  shows "(\<exists>s p m. resp = ImportOk s p m) \<or> d' = d \<or> students d' = []"
  using assms
  by (auto simp: import_csv_def Let_def split: option.splits sum.splits prod.splits if_splits)


subsection \<open>The worked import\<close>

lemma demo_rows:
  "iterrows (demo_frame\<lparr>columns := map strip (columns demo_frame)\<rparr>)
    = [\<lparr> sname = 0, cells = [''Debtor'' \<mapsto> Text ''1''] \<rparr>,
       \<lparr> sname = 1, cells = [''Debtor'' \<mapsto> Text ''0''] \<rparr>]"
  by (simp add: iterrows_def demo_frame_def strip_def is_space_def enumerate_eq_zip upt_rec)

lemma demo_columns: "strip ` set (columns demo_frame) = {''Debtor''}"
  by (simp add: demo_frame_def strip_def is_space_def)

lemma float_str_small: "float_str ''1'' = Inr (Fin 1)" "float_str ''0'' = Inr (Fin 0)"
  by (simp_all add: float_str_defs binary64_small)

lemma demo_fields_ints:
  "list_all fits_int64 (int_columns (student_fields.extend
       (csv_to_student_fields \<lparr> sname = i, cells = [''Debtor'' \<mapsto> Text t] \<rparr>) ext))
    = fits_int64 (to_int (PStr t) 0)"
  by (simp add: int_columns_def csv_to_student_fields_def student_fields.defs to_int_def g_def isna_def
      py_float_small py_int_def fits_int64_def cell_val_def)

lemma demo_fields_ids:
  "student_fields.student_id (csv_to_student_fields \<lparr> sname = i, cells = [''Debtor'' \<mapsto> Text t] \<rparr>)
     = ''CSV'' @ format_05d (i + 1)"
  "name (csv_to_student_fields \<lparr> sname = i, cells = [''Debtor'' \<mapsto> Text t] \<rparr>)
     = ''Student '' @ digits_of (i + 1)"
  by (simp_all add: csv_to_student_fields_def str_get_def)

lemma demo_import_response:
  "fst (import_csv demo_env high_predictor 5 demo_request demo_db)
    = ImportOk \<lparr> created = 2, updated = 0, total = 2, replaced_existing = True, cleared_count = 1,
                 file_name = ''students.csv'', import_date = 5, total_in_db = 2 \<rparr>
        [(''CSV00001'', ''Student 1'', 0.8, ''High''), (''CSV00002'', ''Student 2'', 0.8, ''High'')]
        (filter (\<lambda>col. col \<noteq> ''Debtor'') feature_names)"
  by (simp add: import_csv_def demo_env_def demo_request_def demo_db_def ends_with_def to_lower_def
      demo_rows import_row_def row_to_features_eq predict_def demo_predictor_def high_predictor_def Let_def
      float_literal_values
      commit_students_def demo_fields_ints demo_fields_ids format_05d_examples
      to_int_def isna_def py_float_def py_int_def float_str_small fits_int64_def
      student_id_extend demo_columns)

lemma demo_import_ok:
  "import_csv demo_env high_predictor 5 demo_request demo_db
    = (ImportOk \<lparr> created = 2, updated = 0, total = 2, replaced_existing = True, cleared_count = 1,
                  file_name = ''students.csv'', import_date = 5, total_in_db = 2 \<rparr>
         [(''CSV00001'', ''Student 1'', 0.8, ''High''), (''CSV00002'', ''Student 2'', 0.8, ''High'')]
         (filter (\<lambda>col. col \<noteq> ''Debtor'') feature_names),
       snd (import_csv demo_env high_predictor 5 demo_request demo_db))"
  using demo_import_response by (simp add: prod_eq_iff)

lemma demo_request_file:
  "file_part demo_request = Some \<lparr> filename = ''students.csv'', content = Inr demo_frame \<rparr>"
  "content \<lparr> filename = ''students.csv'', content = Inr demo_frame \<rparr> = Inr demo_frame"
  "''student_id'' \<notin> set (map strip (columns demo_frame))"
  "length (values_of demo_frame) = 2"
  by (simp_all add: demo_request_def demo_frame_def strip_def is_space_def)





lemma placeholder_of_row:
  "cells row ''student_id'' = None \<Longrightarrow>
     student_fields.student_id (csv_to_student_fields row) = ''CSV'' @ format_05d (sname row + 1)"
  by (simp add: csv_to_student_fields_def str_get_def)

lemma iterrows_ids:
  assumes "''student_id'' \<notin> set (columns df)"
  shows "map (\<lambda>row. student_fields.student_id (csv_to_student_fields row)) (iterrows df)
       = map (\<lambda>i. ''CSV'' @ format_05d (i + 1)) [0..<length (values_of df)]"
proof -
  have none: "map_of (zip (columns df) vals) ''student_id'' = None" for vals
    using assms by (auto simp: map_of_eq_None_iff dest: set_zip_leftD)
  have "map (\<lambda>row. student_fields.student_id (csv_to_student_fields row)) (iterrows df)
      = map (\<lambda>x. ''CSV'' @ format_05d (fst x + 1)) (enumerate 0 (values_of df))"
    by (simp add: iterrows_def placeholder_of_row none split_def comp_def)
  also have "\<dots> = map (\<lambda>i. ''CSV'' @ format_05d (i + 1)) (map fst (enumerate 0 (values_of df)))"
    by (simp add: comp_def del: map_fst_enumerate)
  also have "\<dots> = map (\<lambda>i. ''CSV'' @ format_05d (i + 1)) [0..<length (values_of df)]"
    by (simp add: map_fst_enumerate)
  finally show ?thesis .
qed

text \<open>
  C7. When the imported file has no \<open>student_id\<close> column (whether or not it has a
  \<open>name\<close> column), the records of a successful import carry, in row order, the
  identifiers made of the prefix \<open>CSV\<close> and the row's 1-based ordinal padded with zeros
  to five digits: \<open>CSV00001\<close>, \<open>CSV00002\<close>, and so on; they are pairwise different.
\<close>

theorem placeholder_student_ids:
  assumes "import_csv env predictor now req d = (ImportOk summary preview missing, d')"
    and "file_part req = Some f" and "content f = Inr df"
    and "''student_id'' \<notin> set (map strip (columns df))"
  shows "map student_fields.student_id (students d')
           = map (\<lambda>i. ''CSV'' @ format_05d (i + 1)) [0..<length (values_of df)]
       \<and> distinct (map student_fields.student_id (students d'))
       \<and> format_05d 1 = ''00001'' \<and> format_05d 2 = ''00002''"
proof -
  let ?df = "df\<lparr>columns := map strip (columns df)\<rparr>"
  from import_csv_success [OF assms(1)] assms(2,3)
  obtain c pend res where
    loop: "import_loop predictor now (iterrows ?df) (0, [], []) = Inr (c, pend, res)"
    and d': "d' = d\<lparr>students := pend\<rparr>"
    by auto
  from import_loop_shape [OF loop]
  have "map student_fields.truncate pend = map csv_to_student_fields (iterrows ?df)" by simp
  then have "map (student_fields.student_id \<circ> student_fields.truncate) pend
       = map (student_fields.student_id \<circ> csv_to_student_fields) (iterrows ?df)"
    by (metis map_map)
  then have "map student_fields.student_id pend
       = map (\<lambda>row. student_fields.student_id (csv_to_student_fields row)) (iterrows ?df)"
    by (simp add: comp_def student_id_truncate)
  also have "\<dots> = map (\<lambda>i. ''CSV'' @ format_05d (i + 1)) [0..<length (values_of ?df)]"
    using assms(4) by (intro iterrows_ids) simp
  finally have ids: "map student_fields.student_id pend
       = map (\<lambda>i. ''CSV'' @ format_05d (i + 1)) [0..<length (values_of df)]" by simp
  with d' placeholders_distinct [of "length (values_of df)"] show ?thesis
    by (simp add: format_05d_examples)
qed

theorem placeholder_student_ids_witness:
  "map student_fields.student_id
       (students (snd (import_csv demo_env high_predictor 5 demo_request demo_db)))
     = [''CSV00001'', ''CSV00002'']"
  using placeholder_student_ids [OF demo_import_ok demo_request_file(1) demo_request_file(2) demo_request_file(3)]
  by (simp add: demo_request_file(4) upt_rec format_05d_examples)

section \<open>Properties of the single-record prediction\<close>

text \<open>The loop over the counselors appends one notification per counselor, in their order.\<close>

lemma add_notifications_shape:
  "\<exists>new. add_notifications now st cs table = table @ new
        \<and> length new = length cs
        \<and> map counselor_id new = map User.id' cs
        \<and> (\<forall>n \<in> set new. Notification.student_id n = Student.id' st
                         \<and> message n = alert_message st
                         \<and> notification_type n = ''high_risk_alert'')"
proof (induction cs arbitrary: table)
  case Nil
  then show ?case by simp
next
  case (Cons c cs)
  let ?n = "\<lparr> Notification.id' = next_id (map Notification.id' table),
             student_id = Student.id' st, counselor_id = User.id' c,
             message = alert_message st, notification_type = ''high_risk_alert'',
             is_read = False, created_at = now \<rparr>"
  from Cons.IH [of "table @ [?n]"] obtain new where
    new: "add_notifications now st cs (table @ [?n]) = (table @ [?n]) @ new"
      "length new = length cs" "map counselor_id new = map User.id' cs"
      "\<forall>n \<in> set new. Notification.student_id n = Student.id' st
                         \<and> message n = alert_message st
                         \<and> notification_type n = ''high_risk_alert''"
    by blast
  show ?case
    by (rule exI [of _ "?n # new"]) (use new in simp)
qed

lemma demo_student_id: "student_fields.student_id demo_student = ''S001''"
  by (simp add: demo_student_def student_id_extend csv_to_student_fields_def str_get_def)

lemma demo_counselors:
  "map User.id' (filter (\<lambda>u. role u = ''counselor'') (users demo_db)) = [2, 3, 4]"
  "notifications demo_db = []"
  by (simp_all add: demo_db_def demo_users_def)

lemma high_predictor_predicts: "predict high_predictor fs = Inr (0.8, ''High'', [])"
  by (simp add: predict_def high_predictor_def demo_predictor_def float_literal_values)

text \<open>
  C6. When a prediction request names a persisted student and the score is High, the
  alert path appends exactly one notification per counselor account, in the order of the
  accounts, each carrying the student's key and a message with the student's name and
  identifier; with K counselors that is exactly K notifications. When the category is
  not High (Medium or Low) the notification table is unchanged.
\<close>

theorem high_risk_alert_fan_out:
  assumes "predict predictor (request_features data) = Inr (p, c, recs)"
    and "data ''student_id'' = Some sid" and "truthy sid"
    and "filter_by_student_id env (students d) sid = Some st"
    and "predict_dropout env predictor now data d = (resp, d')"
  shows "(c = ''High'' \<longrightarrow>
           (\<exists>new. notifications d' = notifications d @ new
                \<and> length new = length (filter (\<lambda>u. role u = ''counselor'') (users d))
                \<and> map counselor_id new = map User.id' (filter (\<lambda>u. role u = ''counselor'') (users d))
                \<and> (\<forall>n \<in> set new. Notification.student_id n = Student.id' st
                      \<and> message n = ''Student '' @ name st @ '' ('' @ student_fields.student_id st
                            @ '') is at HIGH risk of dropout. Immediate intervention recommended.'')))
       \<and> (c \<noteq> ''High'' \<longrightarrow> notifications d' = notifications d)"
proof (cases "c = ''High''")
  case True
  from add_notifications_shape [of now st "filter (\<lambda>u. role u = ''counselor'') (users d)" "notifications d"]
  obtain new where new:
      "add_notifications now st (filter (\<lambda>u. role u = ''counselor'') (users d)) (notifications d)
        = notifications d @ new"
      "length new = length (filter (\<lambda>u. role u = ''counselor'') (users d))"
      "map counselor_id new = map User.id' (filter (\<lambda>u. role u = ''counselor'') (users d))"
      "\<forall>n \<in> set new. Notification.student_id n = Student.id' st
                         \<and> message n = alert_message st
                         \<and> notification_type n = ''high_risk_alert''"
    by blast
  from assms True new(1) have "notifications d' = notifications d @ new"
    by (auto simp: predict_dropout_def dict_get_def Let_def)
  with new True show ?thesis
    by (auto simp: alert_message_def)
next
  case False
  with assms show ?thesis
    by (auto simp: predict_dropout_def dict_get_def Let_def)
qed

theorem high_risk_alert_fan_out_witness:
  "length (notifications (snd (predict_dropout demo_env high_predictor 9
             [''student_id'' \<mapsto> PStr ''S001''] demo_db))) = 3
   \<and> map counselor_id (notifications (snd (predict_dropout demo_env high_predictor 9
             [''student_id'' \<mapsto> PStr ''S001''] demo_db))) = [2, 3, 4]"
proof -
  let ?data = "[''student_id'' \<mapsto> PStr ''S001'']"
  let ?run = "predict_dropout demo_env high_predictor 9 ?data demo_db"
  have h1: "predict high_predictor (request_features ?data) = Inr (0.8, ''High'', [])"
    by (rule high_predictor_predicts)
  have h2: "?data ''student_id'' = Some (PStr ''S001'')"
    by simp
  have h3: "truthy (PStr ''S001'')"
    by (simp add: truthy_def)
  have h4: "filter_by_student_id demo_env (students demo_db) (PStr ''S001'') = Some demo_student"
    by (simp add: filter_by_student_id_def key_text_def demo_db_def demo_student_id)
  have h5: "?run = (fst ?run, snd ?run)"
    by simp
  from high_risk_alert_fan_out [OF h1 h2 h3 h4 h5]
  obtain new where "notifications (snd ?run) = notifications demo_db @ new"
    and "length new = length (filter (\<lambda>u. role u = ''counselor'') (users demo_db))"
    and "map counselor_id new = map User.id' (filter (\<lambda>u. role u = ''counselor'') (users demo_db))"
    by blast
  then show ?thesis
    using demo_counselors map_eq_imp_length_eq [of User.id' "filter (\<lambda>u. role u = ''counselor'') (users demo_db)" id "[2, 3, 4]"]
    by simp
qed

text \<open>
  C10. When the request has no \<open>student_id\<close> key, or the key names no persisted student,
  the prediction leaves the persisted state exactly as it was (no student updated, no
  notification created, also when the category is High), and it answers with the score
  and category that the predictor returned.
\<close>

theorem prediction_without_student_changes_nothing:
  assumes "data ''student_id'' = None
         \<or> filter_by_student_id env (students d) (dict_get data ''student_id'' PNone) = None"
  shows "snd (predict_dropout env predictor now data d) = d
       \<and> (\<forall>p c recs. predict predictor (request_features data) = Inr (p, c, recs) \<longrightarrow>
             fst (predict_dropout env predictor now data d) = PredictOk p c recs)"
  using assms
  by (auto simp: predict_dropout_def dict_get_def Let_def truthy_def split: sum.splits option.splits)

theorem prediction_without_student_changes_nothing_witness:
  "predict_dropout demo_env high_predictor 9 Map.empty demo_db = (PredictOk 0.8 ''High'' [], demo_db)
   \<and> predict_dropout demo_env high_predictor 9 [''student_id'' \<mapsto> PStr ''S999''] demo_db
       = (PredictOk 0.8 ''High'' [], demo_db)"
proof -
  have a: "(Map.empty :: string \<rightharpoonup> pyval) ''student_id'' = None"
    by simp
  have b: "filter_by_student_id demo_env (students demo_db)
             (dict_get [''student_id'' \<mapsto> PStr ''S999''] ''student_id'' PNone) = None"
    by (simp add: filter_by_student_id_def key_text_def dict_get_def demo_db_def demo_student_id)
  note t1 = prediction_without_student_changes_nothing
              [where data = Map.empty and env = demo_env and predictor = high_predictor
                 and now = 9 and d = demo_db, OF disjI1, OF a]
  note t2 = prediction_without_student_changes_nothing
              [where predictor = high_predictor and now = 9, OF disjI2, OF b]
  from t1 high_predictor_predicts [of "request_features Map.empty"]
  have c: "predict_dropout demo_env high_predictor 9 Map.empty demo_db = (PredictOk 0.8 ''High'' [], demo_db)"
    by (simp add: prod_eq_iff)
  from t2 high_predictor_predicts [of "request_features [''student_id'' \<mapsto> PStr ''S999'']"]
  have "predict_dropout demo_env high_predictor 9 [''student_id'' \<mapsto> PStr ''S999''] demo_db
          = (PredictOk 0.8 ''High'' [], demo_db)"
    by (simp add: prod_eq_iff)
  with c show ?thesis by blast
qed

end
